theory Spec2Isabelle
  imports Main "HOL-Library.Word" "HOL-Library.Sublist"
begin

section \<open>Go library functions used by \<open>Start\<close>\<close>

text \<open>
  Go strings are byte sequences; they are modelled as \<open>string\<close> (a list of characters).
  \<open>Index\<close> is \<open>strings.Index\<close>: the position of the first occurrence of \<open>substr\<close> in
  \<open>s\<close>, with \<open>None\<close> for Go's \<open>-1\<close>.
\<close>

fun Index :: "string \<Rightarrow> string \<Rightarrow> nat option" where
  "Index [] substr = (if substr = [] then Some 0 else None)"
| "Index (c # cs) substr =
     (if prefix substr (c # cs) then Some 0 else map_option Suc (Index cs substr))"

text \<open>\<open>strings.Contains(s, substr)\<close> is \<open>Index(s, substr) >= 0\<close>.\<close>

definition Contains :: "string \<Rightarrow> string \<Rightarrow> bool" where
  "Contains s substr = (Index s substr \<noteq> None)"

text \<open>
  \<open>strings.Split(s, sep)\<close> follows the loop of Go's \<open>genSplit\<close>: cut at the first occurrence
  of \<open>sep\<close>, continue behind it, and finish with the remainder. With an empty separator Go
  splits into UTF-8 sequences, here into single characters; \<open>Start\<close> passes constant
  separators that are not empty.
\<close>

function Split :: "string \<Rightarrow> string \<Rightarrow> string list" where
  "Split s sep =
     (if sep = [] then map (\<lambda>c. [c]) s
      else (case Index s sep of
              None \<Rightarrow> [s]
            | Some m \<Rightarrow> take m s # Split (drop (m + length sep) s) sep))"
  by pat_completeness auto
termination
proof (relation "measure (\<lambda>(s, sep). length s)")
  show "wf (measure (\<lambda>(s, sep). length s))" by simp
next
  fix s sep :: string and m :: nat
  assume sep: "sep \<noteq> []" and idx: "Index s sep = Some m"
  have bound: "Index t sep = Some k \<Longrightarrow> k + length sep \<le> length t" for t k
  proof (induction t arbitrary: k)
    case Nil
    then show ?case by (simp split: if_splits)
  next
    case (Cons c cs)
    show ?case
    proof (cases "prefix sep (c # cs)")
      case True
      with Cons.prems have "k = 0" by simp
      moreover from True have "length sep \<le> length (c # cs)" by (rule prefix_length_le)
      ultimately show ?thesis by simp
    next
      case False
      with Cons.prems obtain j where "Index cs sep = Some j" "k = Suc j" by auto
      with Cons.IH [of j] show ?thesis by simp
    qed
  qed
  from sep idx have "m + length sep \<le> length s" and "0 < length sep"
    using bound [of s m] by simp_all
  then have "length (drop (m + length sep) s) < length s"
    unfolding length_drop by arith
  then show "((drop (m + length sep) s, sep), (s, sep)) \<in> measure (\<lambda>(s, sep). length s)"
    by simp
qed

declare Split.simps [simp del]


section \<open>Data model of \<open>main.go\<close>\<close>

text \<open>\<open>DefaultNumNodes\<close>: the default number of nodes spawned by a script.\<close>

definition DefaultNumNodes :: "64 word" where
  "DefaultNumNodes = 8"

text \<open>The anonymous struct behind \<open>ScriptConfig.Nodes\<close>; a nil pointer is \<open>None\<close>.\<close>

record nodes_config =
  N :: "64 word"
  Args :: "string list option"
  Callback :: "string option"

record ScriptConfig =
  Nodes :: "nodes_config option"
  DataDir :: "string option"
  Steps :: "string list option"

text \<open>An \<open>exec.Cmd\<close> is represented by its argument vector.\<close>

type_synonym cmd = "string list"

record State =
  Workers :: "cmd list"

text \<open>
  Go error values: the sentinel \<open>io.EOF\<close>, and any other error of the operating system or
  of package \<open>os/exec\<close>, identified by its message.
\<close>

datatype go_error = EOF | OtherError string

text \<open>A run-time panic of the Go program; the only one \<open>Start\<close> can raise is indexing a
  slice out of range.\<close>

datatype panic = IndexOutOfRange

text \<open>Indexing a slice, \<open>xs[i]\<close>, panics out of range.\<close>

definition at :: "'a list \<Rightarrow> nat \<Rightarrow> panic + 'a" where
  "at xs i = (if i < length xs then Inr (xs ! i) else Inl IndexOutOfRange)"

subsection \<open>The environment of a call\<close>

text \<open>
  One call of \<open>reader.ReadLine()\<close> returns a line or an error (\<open>io.EOF\<close> at the end of the
  stream). The second result of \<open>ReadLine\<close>, which marks a fragment of a line longer
  than the buffer, is dropped by the code: every fragment is scanned as a line.
\<close>

datatype read_result = Line string | ReadErr go_error

text \<open>
  A node process as \<open>Start\<close> sees it: the result of \<open>cmd.StderrPipe()\<close>, the result of
  \<open>cmd.Start()\<close>, and the results of the successive \<open>ReadLine\<close> calls on its diagnostic
  stream. After the last listed result the next read blocks for ever.
\<close>

record proc =
  pipe_err :: "go_error option"
  start_err :: "go_error option"
  stderr :: "read_result list"

text \<open>The result of \<open>os.Stat("cargo.toml")\<close>: no error, an error for which
  \<open>os.IsNotExist\<close> holds, or any other error.\<close>

datatype stat_result = StatOk | StatNotExist | StatOtherErr

record env =
  smcd_on_path :: bool
  cargo_toml :: stat_result
  cargo_install :: "go_error option"
  procs :: "nat \<Rightarrow> proc"

text \<open>
  What a call does to the outside world, in order: running \<open>cargo install\<close>, starting a
  process with the given argument vector (recorded when \<open>cmd.Start()\<close> succeeded), and
  calling \<open>ReadLine\<close>.
\<close>

datatype event = EvInstall | EvStart cmd | EvReadLine

text \<open>
  The two results of \<open>Start\<close>, \<open>(*State, error)\<close>, each of which may be nil; or a panic.
\<close>

datatype outcome = Returned "State option" "go_error option" | Panicked panic

text \<open>The local variables of \<open>Start\<close> that change while it runs, and the events so far.\<close>

record run =
  bootstrapNode :: "string list"
  state :: State
  trace :: "event list"

text \<open>A block of \<open>Start\<close> either falls through with new variables or leaves the function.\<close>

datatype flow = Next run | Exit outcome "event list"

section \<open>\<open>Start\<close>\<close>

text \<open>Lines 49 to 54: the number of nodes to spawn.\<close>

definition node_count :: "ScriptConfig \<Rightarrow> 64 word" where
  "node_count cfg = (case Nodes cfg of None \<Rightarrow> DefaultNumNodes | Some nd \<Rightarrow> N nd)"

text \<open>Lines 60 to 71: the condition of the installation step, and the step.\<close>

definition needs_install :: "env \<Rightarrow> bool" where
  "needs_install e =
     (\<not> smcd_on_path e \<or> cargo_toml e = StatOk \<or> cargo_toml e \<noteq> StatNotExist)"

definition install :: "env \<Rightarrow> run \<Rightarrow> flow" where
  "install e r =
     (if needs_install e then
        (case cargo_install e of
           Some err \<Rightarrow> Exit (Returned None (Some err)) (trace r @ [EvInstall])
         | None \<Rightarrow> Next (r\<lparr>trace := trace r @ [EvInstall]\<rparr>))
      else Next r)"

text \<open>Lines 115 to 117: the rule for the peer identifier.\<close>

definition peer_id_rule :: "string \<Rightarrow> string list \<Rightarrow> panic + string list" where
  "peer_id_rule line bn =
     (if Contains line ''peer ID'' then
        (case at (Split line ''peer ID: '') 1 of
           Inl p \<Rightarrow> Inl p
         | Inr v \<Rightarrow> Inr (bn @ [v]))
      else Inr bn)"

text \<open>Lines 122 to 124: the rule for the listen address.\<close>

definition address_rule :: "string \<Rightarrow> string list \<Rightarrow> panic + string list" where
  "address_rule line bn =
     (if Contains line ''Assigned to new address'' \<and> length bn < 2 then
        (case at (Split line ''Assigned to new address; listening on '') 1 of
           Inl p \<Rightarrow> Inl p
         | Inr rest \<Rightarrow>
             (case at (Split rest '' now'') 0 of
                Inl p \<Rightarrow> Inl p
              | Inr v \<Rightarrow> Inr (bn @ [v])))
      else Inr bn)"

text \<open>Lines 110 to 124: what one line does to \<open>bootstrapNode\<close>.\<close>

definition scan_line :: "string \<Rightarrow> string list \<Rightarrow> panic + string list" where
  "scan_line line bn =
     (case peer_id_rule line bn of
        Inl p \<Rightarrow> Inl p
      | Inr bn1 \<Rightarrow> address_rule line bn1)"

text \<open>
  Lines 102 to 131: the read loop. \<open>None\<close> means that the loop has not left after the
  listed reads, so that it blocks in \<open>ReadLine\<close>.
\<close>

fun read_loop :: "read_result list \<Rightarrow> run \<Rightarrow> flow option" where
  "read_loop [] r = None"
| "read_loop (ReadErr err # rest) r =
     Some (Exit (Returned None (Some err)) (trace r @ [EvReadLine]))"
| "read_loop (Line line # rest) r =
     (case scan_line line (bootstrapNode r) of
        Inl p \<Rightarrow> Some (Exit (Panicked p) (trace r @ [EvReadLine]))
      | Inr bn \<Rightarrow>
          (if 2 \<le> length bn
           then Some (Next (r\<lparr>bootstrapNode := bn, trace := trace r @ [EvReadLine]\<rparr>))
           else read_loop rest (r\<lparr>bootstrapNode := bn, trace := trace r @ [EvReadLine]\<rparr>)))"

text \<open>The number of processes started so far; the next one is described by \<open>procs\<close> at
  that index.\<close>

fun is_start :: "event \<Rightarrow> bool" where
  "is_start (EvStart c) = True"
| "is_start ev = False"

definition started :: "event list \<Rightarrow> nat" where
  "started tr = length (filter is_start tr)"

text \<open>
  Lines 80 to 139: the body of the spawn loop. Lines 135 to 139 are comments in the source:
  no peer is started and nothing is appended to \<open>state.Workers\<close>.
\<close>

definition loop_body :: "env \<Rightarrow> run \<Rightarrow> flow option" where
  "loop_body e r =
     (if bootstrapNode r = [] then
        (let p = procs e (started (trace r)) in
         case pipe_err p of
           Some err \<Rightarrow> Some (Exit (Returned None (Some err)) (trace r))
         | None \<Rightarrow>
             (case start_err p of
                Some err \<Rightarrow> Some (Exit (Returned None (Some err)) (trace r))
              | None \<Rightarrow>
                  read_loop (stderr p) (r\<lparr>trace := trace r @ [EvStart [''smcd'', ''-n'']]\<rparr>)))
      else Some (Next r))"

text \<open>Line 79: \<open>for i := uint64(0); i < n; i++\<close>.\<close>

function spawn_loop :: "env \<Rightarrow> 64 word \<Rightarrow> 64 word \<Rightarrow> run \<Rightarrow> flow option" where
  "spawn_loop e n i r =
     (if i < n then
        (case loop_body e r of
           None \<Rightarrow> None
         | Some (Exit out tr) \<Rightarrow> Some (Exit out tr)
         | Some (Next r') \<Rightarrow> spawn_loop e n (i + 1) r')
      else Some (Next r))"
  by pat_completeness auto
termination
proof -
  have "unat n - unat (i + 1) < unat n - unat i" if "i < n" for i n :: "64 word"
    using that by unat_arith
  then show ?thesis
    by (relation "measure (\<lambda>(e, n, i, r). unat n - unat i)") simp_all
qed

declare spawn_loop.simps [simp del]

text \<open>
  \<open>Start\<close>: the outcome and the events, or \<open>None\<close> when the call never returns.
\<close>

definition Start :: "env \<Rightarrow> ScriptConfig \<Rightarrow> (outcome \<times> event list) option" where
  "Start e cfg =
     (let n = node_count cfg;
          r0 = \<lparr>bootstrapNode = [], state = \<lparr>Workers = []\<rparr>, trace = []\<rparr>
      in case install e r0 of
           Exit out tr \<Rightarrow> Some (out, tr)
         | Next r1 \<Rightarrow>
             (case spawn_loop e n 0 r1 of
                None \<Rightarrow> None
              | Some (Exit out tr) \<Rightarrow> Some (out, tr)
              | Some (Next r2) \<Rightarrow> Some (Returned (Some (state r2)) None, trace r2)))"


section \<open>Vocabulary of the specification\<close>

text \<open>
  The text of \<open>s\<close> following the first occurrence of \<open>sep\<close> to the end of \<open>s\<close>, when
  \<open>sep\<close> occurs.
\<close>

definition text_after_first :: "string \<Rightarrow> string \<Rightarrow> string option" where
  "text_after_first s sep =
     (case Index s sep of None \<Rightarrow> None | Some m \<Rightarrow> Some (drop (m + length sep) s))"

text \<open>The text of \<open>s\<close> up to the first occurrence of \<open>sep\<close>; all of \<open>s\<close> when \<open>sep\<close> does
  not occur.\<close>

definition text_up_to :: "string \<Rightarrow> string \<Rightarrow> string" where
  "text_up_to s sep = (case Index s sep of None \<Rightarrow> s | Some m \<Rightarrow> take m s)"

text \<open>
  The text between the first occurrence of \<open>opening\<close> and the next occurrence of
  \<open>closing\<close> behind it, when both occur.
\<close>

definition text_between :: "string \<Rightarrow> string \<Rightarrow> string \<Rightarrow> string option" where
  "text_between s opening closing =
     (case text_after_first s opening of
        None \<Rightarrow> None
      | Some rest \<Rightarrow>
          (case Index rest closing of None \<Rightarrow> None | Some k \<Rightarrow> Some (take k rest)))"

text \<open>
  The lines of a stream prefix leave discovery unfinished: scanned in order from
  \<open>bn\<close>, none of them panics and fewer than two entries are known after each.
\<close>

fun pending :: "string list \<Rightarrow> string list \<Rightarrow> bool" where
  "pending [] bn = True"
| "pending (l # ls) bn =
     (case scan_line l bn of
        Inl p \<Rightarrow> False
      | Inr bn' \<Rightarrow> length bn' < 2 \<and> pending ls bn')"

text \<open>The installation step does not abort the call: it is skipped or succeeds.\<close>

definition install_ok :: "env \<Rightarrow> bool" where
  "install_ok e = (\<not> needs_install e \<or> cargo_install e = None)"

definition install_trace :: "env \<Rightarrow> event list" where
  "install_trace e = (if needs_install e then [EvInstall] else [])"

subsection \<open>Concrete inputs\<close>

text \<open>The two log lines of the specification's examples.\<close>

definition peer_line :: string where
  "peer_line = ''INFO peer ID: QmAbc123''"

definition address_line :: string where
  "address_line =
     ''INFO Assigned to new address; listening on /ip4/127.0.0.1/tcp/4001 now active''"

text \<open>A node process that starts and whose diagnostic stream yields \<open>rs\<close>.\<close>

definition node_printing :: "read_result list \<Rightarrow> proc" where
  "node_printing rs = \<lparr>pipe_err = None, start_err = None, stderr = rs\<rparr>"

text \<open>
  An environment in which \<open>smcd\<close> is on the path, the working directory has no
  \<open>cargo.toml\<close>, and every node behaves as \<open>p\<close>.
\<close>

definition env_with :: "proc \<Rightarrow> env" where
  "env_with p =
     \<lparr>smcd_on_path = True, cargo_toml = StatNotExist, cargo_install = None,
      procs = (\<lambda>k. p)\<rparr>"

text \<open>An environment in which \<open>smcd\<close> is missing and \<open>cargo install\<close> fails.\<close>

definition env_install_fails :: "go_error \<Rightarrow> proc \<Rightarrow> env" where
  "env_install_fails err p =
     \<lparr>smcd_on_path = False, cargo_toml = StatNotExist, cargo_install = Some err,
      procs = (\<lambda>k. p)\<rparr>"

text \<open>A configuration whose \<open>Nodes\<close> section asks for \<open>n\<close> nodes, and one without the
  section.\<close>

definition config_n :: "64 word \<Rightarrow> ScriptConfig" where
  "config_n n =
     \<lparr>Nodes = Some \<lparr>N = n, Args = None, Callback = None\<rparr>, DataDir = None, Steps = None\<rparr>"

definition config_default :: ScriptConfig where
  "config_default = \<lparr>Nodes = None, DataDir = None, Steps = None\<rparr>"

definition start_run :: run where
  "start_run = \<lparr>bootstrapNode = [], state = \<lparr>Workers = []\<rparr>, trace = []\<rparr>"

section \<open>Facts about the library functions\<close>

lemma Index_None_iff: "Index s sub = None \<longleftrightarrow> \<not> sublist sub s"
  by (induction s) (auto simp: sublist_Cons_right)

lemma Contains_iff_sublist: "Contains s sub \<longleftrightarrow> sublist sub s"
  by (simp add: Contains_def Index_None_iff)

lemma Index_Some_Contains: "Index s sub = Some m \<Longrightarrow> Contains s sub"
  by (simp add: Contains_def)

lemma Contains_shorter: "Contains s (a @ b) \<Longrightarrow> Contains s a"
proof -
  assume "Contains s (a @ b)"
  then have "sublist (a @ b) s" by (simp add: Contains_iff_sublist)
  moreover have "sublist a (a @ b)" by simp
  ultimately have "sublist a s" by (rule sublist_order.order.trans [rotated])
  then show ?thesis by (simp add: Contains_iff_sublist)
qed

lemma Split_absent: "sep \<noteq> [] \<Longrightarrow> Index s sep = None \<Longrightarrow> Split s sep = [s]"
  by (subst Split.simps) simp

lemma Split_cut:
  "sep \<noteq> [] \<Longrightarrow> Index s sep = Some m \<Longrightarrow>
   Split s sep = take m s # Split (drop (m + length sep) s) sep"
  by (subst Split.simps) simp

lemma Split_head: "sep \<noteq> [] \<Longrightarrow> \<exists>more. Split s sep = text_up_to s sep # more"
  by (cases "Index s sep") (simp_all add: Split_absent Split_cut text_up_to_def)

lemma at_Split_0: "sep \<noteq> [] \<Longrightarrow> at (Split s sep) 0 = Inr (text_up_to s sep)"
  using Split_head [of sep s] by (auto simp: at_def)

lemma at_Split_1:
  assumes "sep \<noteq> []" and "text_after_first s sep = Some rest"
  shows "at (Split s sep) 1 = Inr (text_up_to rest sep)"
proof -
  from assms(2) obtain m where m: "Index s sep = Some m" and rest: "rest = drop (m + length sep) s"
    by (auto simp: text_after_first_def split: option.splits)
  from Split_head [OF assms(1), of rest] obtain more
    where "Split rest sep = text_up_to rest sep # more" ..
  with m rest assms(1) show ?thesis
    by (simp add: Split_cut at_def)
qed

lemma at_Split_1_absent:
  "sep \<noteq> [] \<Longrightarrow> Index s sep = None \<Longrightarrow> at (Split s sep) 1 = Inl IndexOutOfRange"
  by (simp add: Split_absent at_def)

lemma text_up_to_absent: "\<not> Contains s sep \<Longrightarrow> text_up_to s sep = s"
  by (simp add: Contains_def text_up_to_def)

section \<open>Facts about the loops\<close>

lemma read_loop_Next:
  "read_loop rs r = Some (Next r') \<Longrightarrow> 2 \<le> length (bootstrapNode r') \<and> state r' = state r"
  by (induction rs r rule: read_loop.induct) (auto split: sum.splits if_splits)

lemma read_loop_Exit:
  "read_loop rs r = Some (Exit out tr) \<Longrightarrow>
   (\<exists>err. out = Returned None (Some err)) \<or> (\<exists>p. out = Panicked p)"
  by (induction rs r rule: read_loop.induct) (auto split: sum.splits if_splits)

lemma loop_body_Next:
  "loop_body e r = Some (Next r') \<Longrightarrow> bootstrapNode r' \<noteq> [] \<and> state r' = state r"
  by (auto simp: loop_body_def Let_def split: if_splits option.splits dest!: read_loop_Next)

lemma loop_body_Exit:
  "loop_body e r = Some (Exit out tr) \<Longrightarrow>
   (\<exists>err. out = Returned None (Some err)) \<or> (\<exists>p. out = Panicked p)"
  by (auto simp: loop_body_def Let_def split: if_splits option.splits dest: read_loop_Exit)

lemma spawn_loop_idle: "bootstrapNode r \<noteq> [] \<Longrightarrow> spawn_loop e n i r = Some (Next r)"
proof (induction e n i r rule: spawn_loop.induct)
  case (1 e n i r)
  then have body: "loop_body e r = Some (Next r)" by (simp add: loop_body_def)
  show ?case
  proof (cases "i < n")
    case True
    with "1.IH" [OF True body] "1.prems" body show ?thesis
      by (subst spawn_loop.simps) simp
  next
    case False
    then show ?thesis by (subst spawn_loop.simps) simp
  qed
qed

lemma spawn_loop_first:
  assumes "bootstrapNode r = []"
  shows "spawn_loop e n 0 r = (if n = 0 then Some (Next r) else loop_body e r)"
proof (cases "n = 0")
  case True
  then show ?thesis by (subst spawn_loop.simps) simp
next
  case False
  then have pos: "0 < n" by (simp add: word_neq_0_conv)
  show ?thesis
  proof (cases "loop_body e r")
    case None
    with pos False show ?thesis by (subst spawn_loop.simps) simp
  next
    case (Some f)
    show ?thesis
    proof (cases f)
      case (Next r')
      with Some have "bootstrapNode r' \<noteq> []" by (simp add: loop_body_Next)
      then have "spawn_loop e n (0 + 1) r' = Some (Next r')" by (rule spawn_loop_idle)
      with pos False Some Next show ?thesis by (subst spawn_loop.simps) simp
    next
      case (Exit out tr)
      with pos False Some show ?thesis by (subst spawn_loop.simps) simp
    qed
  qed
qed

lemma install_start_run:
  "install e start_run =
     (if install_ok e then Next (start_run\<lparr>trace := install_trace e\<rparr>)
      else Exit (Returned None (cargo_install e)) [EvInstall])"
  by (auto simp: install_def install_ok_def install_trace_def start_run_def split: option.splits)

lemma Start_unfold:
  "Start e cfg =
     (if \<not> install_ok e then Some (Returned None (cargo_install e), [EvInstall])
      else if node_count cfg = 0
        then Some (Returned (Some \<lparr>Workers = []\<rparr>) None, install_trace e)
      else (case loop_body e (start_run\<lparr>trace := install_trace e\<rparr>) of
              None \<Rightarrow> None
            | Some (Exit out tr) \<Rightarrow> Some (out, tr)
            | Some (Next r2) \<Rightarrow> Some (Returned (Some (state r2)) None, trace r2)))"
proof -
  have r0: "\<lparr>bootstrapNode = [], state = \<lparr>Workers = []\<rparr>, trace = []\<rparr> = start_run"
    by (simp add: start_run_def)
  have empty: "bootstrapNode (start_run\<lparr>trace := install_trace e\<rparr>) = []"
    by (simp add: start_run_def)
  have st: "state start_run = \<lparr>Workers = []\<rparr>"
    by (simp add: start_run_def)
  show ?thesis
    unfolding Start_def Let_def r0 install_start_run
    by (simp add: spawn_loop_first [OF empty] st)
qed

lemma started_install_trace: "started (install_trace e) = 0"
  by (simp add: started_def install_trace_def)

lemma read_loop_pending:
  "pending ls (bootstrapNode r) \<Longrightarrow>
   read_loop (map Line ls @ ReadErr err # rest) r =
     Some (Exit (Returned None (Some err)) (trace r @ replicate (Suc (length ls)) EvReadLine))"
proof (induction ls arbitrary: r)
  case Nil
  then show ?case by simp
next
  case (Cons l ls)
  from Cons.prems obtain bn where bn: "scan_line l (bootstrapNode r) = Inr bn"
    and short: "length bn < 2" and rest: "pending ls bn"
    by (auto split: sum.splits)
  let ?r = "r\<lparr>bootstrapNode := bn, trace := trace r @ [EvReadLine]\<rparr>"
  from rest have "pending ls (bootstrapNode ?r)" by simp
  from Cons.IH [OF this] bn short show ?case
    by (simp add: replicate_app_Cons_same)
qed


lemma Start_read_error:
  assumes "install_ok e" and "node_count cfg \<noteq> 0"
    and "pipe_err (procs e 0) = None" and "start_err (procs e 0) = None"
    and "stderr (procs e 0) = map Line ls @ ReadErr err # rest"
    and "pending ls []"
  shows "Start e cfg =
     Some (Returned None (Some err),
           install_trace e @ EvStart [''smcd'', ''-n''] # replicate (Suc (length ls)) EvReadLine)"
proof -
  let ?r = "start_run\<lparr>trace := install_trace e\<rparr>"
  let ?r' = "?r\<lparr>trace := trace ?r @ [EvStart [''smcd'', ''-n'']]\<rparr>"
  from assms(6) have "pending ls (bootstrapNode ?r')" by (simp add: start_run_def)
  then have "read_loop (map Line ls @ ReadErr err # rest) ?r' =
     Some (Exit (Returned None (Some err)) (trace ?r' @ replicate (Suc (length ls)) EvReadLine))"
    by (rule read_loop_pending)
  with assms(3-5) have "loop_body e ?r =
     Some (Exit (Returned None (Some err))
       (install_trace e @ EvStart [''smcd'', ''-n''] # replicate (Suc (length ls)) EvReadLine))"
    by (simp add: loop_body_def started_install_trace start_run_def)
  with assms(1,2) show ?thesis by (simp add: Start_unfold)
qed

lemma Start_launch_error:
  assumes "install_ok e" and "node_count cfg \<noteq> 0"
    and "pipe_err (procs e 0) = Some err \<or> pipe_err (procs e 0) = None \<and> start_err (procs e 0) = Some err"
  shows "Start e cfg = Some (Returned None (Some err), install_trace e)"
proof -
  from assms(3) have "loop_body e (start_run\<lparr>trace := install_trace e\<rparr>) =
     Some (Exit (Returned None (Some err)) (install_trace e))"
    by (auto simp: loop_body_def started_install_trace start_run_def)
  with assms(1,2) show ?thesis by (simp add: Start_unfold)
qed

lemma Start_install_error:
  assumes "needs_install e" and "cargo_install e = Some err"
  shows "Start e cfg = Some (Returned None (Some err), [EvInstall])"
  using assms by (simp add: Start_unfold install_ok_def)

lemma Start_Returned:
  assumes "Start e cfg = Some (Returned st er, tr)"
  shows "(st = None \<and> er \<noteq> None) \<or> (st = Some \<lparr>Workers = []\<rparr> \<and> er = None)"
proof (cases "install_ok e")
  case False
  with assms show ?thesis by (auto simp: Start_unfold install_ok_def)
next
  case True
  show ?thesis
  proof (cases "node_count cfg = 0")
    case zero: True
    with True assms show ?thesis by (simp add: Start_unfold)
  next
    case False
    let ?r = "start_run\<lparr>trace := install_trace e\<rparr>"
    show ?thesis
    proof (cases "loop_body e ?r")
      case None
      with True False assms show ?thesis by (simp add: Start_unfold)
    next
      case (Some f)
      show ?thesis
      proof (cases f)
        case (Next r2)
        with Some have "state r2 = state ?r" by (simp add: loop_body_Next)
        then have "state r2 = \<lparr>Workers = []\<rparr>" by (simp add: start_run_def)
        with True False assms Some Next show ?thesis by (simp add: Start_unfold)
      next
        case (Exit out tr')
        with Some loop_body_Exit [of e ?r out tr']
        have "(\<exists>err. out = Returned None (Some err)) \<or> (\<exists>p. out = Panicked p)" by simp
        with True False assms Some Exit show ?thesis by (auto simp: Start_unfold)
      qed
    qed
  qed
qed

section \<open>The spawn loop on concrete inputs\<close>

text \<open>
  C1. For a node count of 5 the specification expects five started processes and five
  worker handles, the first a bootstrap node and the others peers started after discovery.
  On an environment in which the bootstrap node prints both facts, the code starts one
  process, \<open>smcd -n\<close>, reads its two lines and returns a state without any worker.
\<close>

theorem Start_five_nodes_one_process:
  "Start (env_with (node_printing [Line peer_line, Line address_line])) (config_n 5) =
     Some (Returned (Some \<lparr>Workers = []\<rparr>) None,
           [EvStart [''smcd'', ''-n''], EvReadLine, EvReadLine])"
  by code_simp

text \<open>
  C2. Scanning a line is expected to complete for every line. A line that contains
  \<open>peer ID\<close> without the colon and space, or \<open>Assigned to new address\<close> without the rest of
  the marker, makes the code index the one-element result of \<open>Split\<close> at position 1:
  the scan panics, and so does \<open>Start\<close> when the bootstrap node prints such a line.
\<close>

theorem scan_line_index_panic:
  "scan_line ''peer ID'' [] = Inl IndexOutOfRange \<and>
   scan_line ''Assigned to new address'' [] = Inl IndexOutOfRange \<and>
   Start (env_with (node_printing [Line ''peer ID''])) (config_n 1) =
     Some (Panicked IndexOutOfRange, [EvStart [''smcd'', ''-n''], EvReadLine])"
  by code_simp

text \<open>
  C3. Discovery over the peer-ID line and the address line leaves the read loop after two
  reads in either order, but \<open>bootstrapNode\<close> holds the values in order of arrival: with
  the address line first, position 0 (the peer identifier of line 135) holds the address
  and position 1 holds the peer identifier.
\<close>

theorem read_loop_order_of_arrival:
  "read_loop [Line peer_line, Line address_line, Line ''later''] start_run =
     Some (Next (start_run\<lparr>bootstrapNode := [''QmAbc123'', ''/ip4/127.0.0.1/tcp/4001''],
                           trace := [EvReadLine, EvReadLine]\<rparr>)) \<and>
   read_loop [Line address_line, Line peer_line, Line ''later''] start_run =
     Some (Next (start_run\<lparr>bootstrapNode := [''/ip4/127.0.0.1/tcp/4001'', ''QmAbc123''],
                           trace := [EvReadLine, EvReadLine]\<rparr>))"
  by code_simp

text \<open>
  C4. Each fact is expected to be set by its first matching line only. In the code a
  second peer-ID line, and likewise a second address line, is appended to
  \<open>bootstrapNode\<close> as its second entry and ends discovery.
\<close>

theorem read_loop_second_match_appended:
  "read_loop [Line peer_line, Line ''INFO peer ID: QmOther'', Line address_line] start_run =
     Some (Next (start_run\<lparr>bootstrapNode := [''QmAbc123'', ''QmOther''],
                           trace := [EvReadLine, EvReadLine]\<rparr>)) \<and>
   read_loop [Line address_line,
              Line ''Assigned to new address; listening on /ip4/10.0.0.1/tcp/1 now'',
              Line peer_line] start_run =
     Some (Next (start_run\<lparr>bootstrapNode := [''/ip4/127.0.0.1/tcp/4001'', ''/ip4/10.0.0.1/tcp/1''],
                           trace := [EvReadLine, EvReadLine]\<rparr>))"
  by code_simp

section \<open>Errors of the diagnostic stream\<close>

text \<open>
  C5, as stated: when the stream ends before both facts are known, \<open>Start\<close> returns a
  dedicated error that differs from the stream's own read error. The code has no such
  error: at the end of the stream \<open>ReadLine\<close> returns \<open>io.EOF\<close>, and \<open>Start\<close> returns that
  very value.
\<close>

theorem Start_eof_returns_reader_error:
  "stderr (node_printing [ReadErr EOF]) = [ReadErr EOF] \<and>
   Start (env_with (node_printing [ReadErr EOF])) (config_n 1) =
     Some (Returned None (Some EOF), [EvStart [''smcd'', ''-n''], EvReadLine])"
  by code_simp

text \<open>
  C5, amended: when a read on the bootstrap node's stream fails before both facts are
  known, at the end of the stream (\<open>io.EOF\<close>) or otherwise, \<open>Start\<close> returns the error of
  that read unchanged and no state, having started the one process and read up to the
  failing call.
\<close>

theorem Start_read_error_propagated:
  assumes "install_ok e" and "node_count cfg \<noteq> 0"
    and "pipe_err (procs e 0) = None" and "start_err (procs e 0) = None"
    and "stderr (procs e 0) = map Line ls @ ReadErr err # rest"
    and "pending ls []"
  shows "Start e cfg =
     Some (Returned None (Some err),
           install_trace e @ EvStart [''smcd'', ''-n''] # replicate (Suc (length ls)) EvReadLine)"
  using assms by (rule Start_read_error)

text \<open>The amended C5 at a stream that ends after one unrelated line and the peer-ID line.\<close>

theorem Start_read_error_propagated_witness:
  "install_ok (env_with (node_printing [Line ''starting'', Line peer_line, ReadErr EOF])) \<and>
   node_count (config_n 2) \<noteq> 0 \<and>
   pending [''starting'', peer_line] [] \<and>
   Start (env_with (node_printing [Line ''starting'', Line peer_line, ReadErr EOF])) (config_n 2) =
     Some (Returned None (Some EOF),
           [EvStart [''smcd'', ''-n''], EvReadLine, EvReadLine, EvReadLine])"
proof -
  let ?e = "env_with (node_printing [Line ''starting'', Line peer_line, ReadErr EOF])"
  have ok: "install_ok ?e" by code_simp
  have n: "node_count (config_n 2) \<noteq> 0" by code_simp
  have pipe: "pipe_err (procs ?e 0) = None" by code_simp
  have start: "start_err (procs ?e 0) = None" by code_simp
  have out: "stderr (procs ?e 0) = map Line [''starting'', peer_line] @ ReadErr EOF # []"
    by (simp add: env_with_def node_printing_def)
  have pend: "pending [''starting'', peer_line] []" by code_simp
  have tr: "install_trace ?e = []" by code_simp
  from Start_read_error_propagated [OF ok n pipe start out pend] ok n pend tr
  show ?thesis by (simp add: numeral_2_eq_2)
qed

section \<open>Error returns of \<open>Start\<close>\<close>

text \<open>
  C6. \<open>Start\<close> returns either an error or a state, never both: whenever it returns, the
  state is nil exactly when the error is not. Each failure returns its error and no
  state: a failing \<open>cargo install\<close>, a failing \<open>StderrPipe\<close>, a failing \<open>cmd.Start\<close> of
  the bootstrap node (after which no process has been started), and a failing read,
  \<open>io.EOF\<close> included, before both facts are known.
\<close>

theorem Start_error_without_state:
  "(Start e cfg = Some (Returned st er, tr) \<longrightarrow> (st = None) = (er \<noteq> None)) \<and>
   (needs_install e \<and> cargo_install e = Some err1 \<longrightarrow>
      Start e cfg = Some (Returned None (Some err1), [EvInstall])) \<and>
   (install_ok e \<and> node_count cfg \<noteq> 0 \<and> pipe_err (procs e 0) = Some err2 \<longrightarrow>
      Start e cfg = Some (Returned None (Some err2), install_trace e)) \<and>
   (install_ok e \<and> node_count cfg \<noteq> 0 \<and> pipe_err (procs e 0) = None \<and>
    start_err (procs e 0) = Some err3 \<longrightarrow>
      Start e cfg = Some (Returned None (Some err3), install_trace e)) \<and>
   (install_ok e \<and> node_count cfg \<noteq> 0 \<and> pipe_err (procs e 0) = None \<and>
    start_err (procs e 0) = None \<and> stderr (procs e 0) = map Line ls @ ReadErr err4 # rest \<and>
    pending ls [] \<longrightarrow>
      (\<exists>tr'. Start e cfg = Some (Returned None (Some err4), tr')))"
proof (intro conjI impI)
  assume "Start e cfg = Some (Returned st er, tr)"
  from Start_Returned [OF this] show "(st = None) = (er \<noteq> None)" by auto
next
  assume "needs_install e \<and> cargo_install e = Some err1"
  then show "Start e cfg = Some (Returned None (Some err1), [EvInstall])"
    by (simp add: Start_install_error)
next
  assume "install_ok e \<and> node_count cfg \<noteq> 0 \<and> pipe_err (procs e 0) = Some err2"
  then show "Start e cfg = Some (Returned None (Some err2), install_trace e)"
    by (simp add: Start_launch_error)
next
  assume "install_ok e \<and> node_count cfg \<noteq> 0 \<and> pipe_err (procs e 0) = None \<and>
    start_err (procs e 0) = Some err3"
  then show "Start e cfg = Some (Returned None (Some err3), install_trace e)"
    by (simp add: Start_launch_error)
next
  assume "install_ok e \<and> node_count cfg \<noteq> 0 \<and> pipe_err (procs e 0) = None \<and>
    start_err (procs e 0) = None \<and> stderr (procs e 0) = map Line ls @ ReadErr err4 # rest \<and>
    pending ls []"
  then show "\<exists>tr'. Start e cfg = Some (Returned None (Some err4), tr')"
    by (simp add: Start_read_error)
qed

text \<open>
  C6 at four failing environments: \<open>cargo install\<close> exits with an error, the pipe cannot
  be opened, the bootstrap node cannot be started, and a read fails after the peer-ID
  line.
\<close>

theorem Start_error_without_state_witness:
  "needs_install (env_install_fails (OtherError ''exit status 101'') (node_printing [])) \<and>
   Start (env_install_fails (OtherError ''exit status 101'') (node_printing [])) (config_n 3) =
     Some (Returned None (Some (OtherError ''exit status 101'')), [EvInstall]) \<and>
   pipe_err (procs (env_with \<lparr>pipe_err = Some (OtherError ''too many open files''),
                               start_err = None, stderr = []\<rparr>) 0) \<noteq> None \<and>
   Start (env_with \<lparr>pipe_err = Some (OtherError ''too many open files''),
                     start_err = None, stderr = []\<rparr>) (config_n 3) =
     Some (Returned None (Some (OtherError ''too many open files'')), []) \<and>
   start_err (procs (env_with \<lparr>pipe_err = None,
                                start_err = Some (OtherError ''permission denied''),
                                stderr = []\<rparr>) 0) \<noteq> None \<and>
   Start (env_with \<lparr>pipe_err = None, start_err = Some (OtherError ''permission denied''),
                     stderr = []\<rparr>) (config_n 3) =
     Some (Returned None (Some (OtherError ''permission denied'')), []) \<and>
   ((None :: State option) = None) = (Some (OtherError ''exit status 101'') \<noteq> None) \<and>
   pending [peer_line] [] \<and>
   (\<exists>tr. Start (env_with (node_printing [Line peer_line, ReadErr (OtherError ''input/output error'')]))
          (config_n 3) =
     Some (Returned None (Some (OtherError ''input/output error'')), tr))"
proof -
  let ?e1 = "env_install_fails (OtherError ''exit status 101'') (node_printing [])"
  let ?e2 = "env_with \<lparr>pipe_err = Some (OtherError ''too many open files''),
                        start_err = None, stderr = []\<rparr>"
  let ?e3 = "env_with \<lparr>pipe_err = None, start_err = Some (OtherError ''permission denied''),
                        stderr = []\<rparr>"
  let ?e4 = "env_with (node_printing [Line peer_line, ReadErr (OtherError ''input/output error'')])"
  have n: "node_count (config_n 3) \<noteq> 0" by code_simp
  have a1: "needs_install ?e1" by code_simp
  have a2: "cargo_install ?e1 = Some (OtherError ''exit status 101'')" by code_simp
  have b1: "install_ok ?e2" by code_simp
  have b2: "pipe_err (procs ?e2 0) = Some (OtherError ''too many open files'')" by code_simp
  have b3: "install_trace ?e2 = []" by code_simp
  have c1: "install_ok ?e3" by code_simp
  have c2: "pipe_err (procs ?e3 0) = None" by code_simp
  have c3: "start_err (procs ?e3 0) = Some (OtherError ''permission denied'')" by code_simp
  have c4: "install_trace ?e3 = []" by code_simp
  have d1: "install_ok ?e4" by code_simp
  have d2: "pipe_err (procs ?e4 0) = None" by code_simp
  have d3: "start_err (procs ?e4 0) = None" by code_simp
  have d4: "stderr (procs ?e4 0) =
      map Line [peer_line] @ ReadErr (OtherError ''input/output error'') # []"
    by (simp add: env_with_def node_printing_def)
  have d5: "pending [peer_line] []" by code_simp
  note main = Start_error_without_state
  from main [where e = ?e1 and cfg = "config_n 3" and ?err1.0 = "OtherError ''exit status 101''"]
    a1 a2
  have A: "Start ?e1 (config_n 3) =
      Some (Returned None (Some (OtherError ''exit status 101'')), [EvInstall])"
    by blast
  from main [where e = ?e2 and cfg = "config_n 3" and ?err2.0 = "OtherError ''too many open files''"]
    b1 n b2
  have "Start ?e2 (config_n 3) =
      Some (Returned None (Some (OtherError ''too many open files'')), install_trace ?e2)"
    by blast
  then have B: "Start ?e2 (config_n 3) =
      Some (Returned None (Some (OtherError ''too many open files'')), [])"
    by (simp only: b3)
  from main [where e = ?e3 and cfg = "config_n 3" and ?err3.0 = "OtherError ''permission denied''"]
    c1 n c2 c3
  have "Start ?e3 (config_n 3) =
      Some (Returned None (Some (OtherError ''permission denied'')), install_trace ?e3)"
    by blast
  then have C: "Start ?e3 (config_n 3) =
      Some (Returned None (Some (OtherError ''permission denied'')), [])"
    by (simp only: c4)
  from main [where e = ?e4 and cfg = "config_n 3" and ls = "[peer_line]" and rest = "[]"
      and ?err4.0 = "OtherError ''input/output error''"]
    d1 n d2 d3 d4 d5
  have D: "\<exists>tr. Start ?e4 (config_n 3) =
      Some (Returned None (Some (OtherError ''input/output error'')), tr)"
    by blast
  from main [where e = ?e1 and cfg = "config_n 3" and st = None
      and er = "Some (OtherError ''exit status 101'')" and tr = "[EvInstall]"] A
  have E: "((None :: State option) = None) = (Some (OtherError ''exit status 101'') \<noteq> None)"
    by blast
  from a1 A b2 B c3 C d5 D E show ?thesis by simp
qed

section \<open>The number of nodes\<close>

text \<open>
  C9. Without a \<open>Nodes\<close> section the number of nodes is the default, 8, and \<open>Start\<close>
  behaves exactly as with a \<open>Nodes\<close> section whose \<open>N\<close> is 8; with a \<open>Nodes\<close> section
  the number of nodes is its \<open>N\<close>.
\<close>

theorem node_count_default_eight:
  "(Nodes cfg = None \<longrightarrow>
      node_count cfg = 8 \<and>
      Start e cfg = Start e (cfg\<lparr>Nodes := Some \<lparr>N = 8, Args = a, Callback = c\<rparr>\<rparr>)) \<and>
   (Nodes cfg = Some nd \<longrightarrow> node_count cfg = N nd)"
  by (simp add: node_count_def DefaultNumNodes_def Start_def)

text \<open>C9 at a configuration without a \<open>Nodes\<close> section and at one with \<open>N = 3\<close>.\<close>

theorem node_count_default_eight_witness:
  "Nodes config_default = None \<and> node_count config_default = 8 \<and>
   Start (env_with (node_printing [])) config_default =
     Start (env_with (node_printing []))
       (config_default\<lparr>Nodes := Some \<lparr>N = 8, Args = None, Callback = None\<rparr>\<rparr>) \<and>
   Nodes (config_n 3) = Some \<lparr>N = 3, Args = None, Callback = None\<rparr> \<and>
   node_count (config_n 3) = 3"
proof -
  have a: "Nodes config_default = None" by (simp add: config_default_def)
  have b: "Nodes (config_n 3) = Some \<lparr>N = 3, Args = None, Callback = None\<rparr>"
    by (simp add: config_n_def)
  from node_count_default_eight [of config_default "env_with (node_printing [])" None None] a
  have A: "node_count config_default = 8 \<and>
    Start (env_with (node_printing [])) config_default =
     Start (env_with (node_printing []))
       (config_default\<lparr>Nodes := Some \<lparr>N = 8, Args = None, Callback = None\<rparr>\<rparr>)"
    by blast
  from node_count_default_eight [of "config_n 3" _ _ _ "\<lparr>N = 3, Args = None, Callback = None\<rparr>"] b
  have B: "node_count (config_n 3) = N \<lparr>N = 3, Args = None, Callback = None\<rparr>"
    by blast
  from a b A B show ?thesis by simp
qed

text \<open>
  C10, as stated: with \<open>N = 0\<close> \<open>Start\<close> returns an empty state and no error. The
  installation step of lines 60 to 71 runs before the loop whatever the node count:
  where \<open>smcd\<close> is missing and \<open>cargo install\<close> fails, \<open>Start\<close> returns that error and no
  state.
\<close>

theorem zero_nodes_install_failure:
  "Nodes (config_n 0) = Some \<lparr>N = 0, Args = None, Callback = None\<rparr> \<and>
   Start (env_install_fails (OtherError ''exit status 101'') (node_printing [])) (config_n 0) =
     Some (Returned None (Some (OtherError ''exit status 101'')), [EvInstall])"
  by code_simp

text \<open>
  C10, amended: with \<open>N = 0\<close>, when the installation step is skipped or succeeds,
  \<open>Start\<close> starts no process, reads no line and returns a non-nil state without workers
  and no error; when the installation step fails, \<open>Start\<close> returns its error and no
  state. The only event is the installation.
\<close>

theorem Start_zero_nodes:
  assumes "Nodes cfg = Some nd" and "N nd = 0"
  shows "Start e cfg =
     (if install_ok e
      then Some (Returned (Some \<lparr>Workers = []\<rparr>) None, install_trace e)
      else Some (Returned None (cargo_install e), [EvInstall])) \<and>
     set (install_trace e) \<subseteq> {EvInstall}"
proof
  from assms have "node_count cfg = 0" by (simp add: node_count_def)
  then show "Start e cfg =
     (if install_ok e
      then Some (Returned (Some \<lparr>Workers = []\<rparr>) None, install_trace e)
      else Some (Returned None (cargo_install e), [EvInstall]))"
    by (simp add: Start_unfold)
  show "set (install_trace e) \<subseteq> {EvInstall}"
    by (auto simp: install_trace_def)
qed

text \<open>The amended C10 where \<open>smcd\<close> is installed: nothing happens at all.\<close>

theorem Start_zero_nodes_witness:
  "Nodes (config_n 0) = Some \<lparr>N = 0, Args = None, Callback = None\<rparr> \<and>
   N \<lparr>N = 0, Args = None, Callback = None\<rparr> = 0 \<and>
   Start (env_with (node_printing [Line peer_line, Line address_line])) (config_n 0) =
     Some (Returned (Some \<lparr>Workers = []\<rparr>) None, [])"
proof -
  let ?e = "env_with (node_printing [Line peer_line, Line address_line])"
  let ?nd = "\<lparr>N = 0, Args = None, Callback = None\<rparr>"
  have a: "Nodes (config_n 0) = Some ?nd" by (simp add: config_n_def)
  have b: "N ?nd = 0" by simp
  have ok: "install_ok ?e" by code_simp
  have tr: "install_trace ?e = []" by code_simp
  from Start_zero_nodes [OF a b, of ?e] ok tr a b show ?thesis by simp
qed

section \<open>The extraction rules\<close>

text \<open>
  C7, as stated: the peer identifier is the text behind the first \<open>peer ID: \<close> to the end
  of the line. The code takes element 1 of the split line, which ends where the
  separator occurs again: on a line that names a second peer ID the extracted text stops
  there.
\<close>

theorem peer_id_rule_second_occurrence:
  "Contains ''INFO peer ID: QmAbc123 (old peer ID: QmOld)'' ''peer ID'' \<and>
   text_after_first ''INFO peer ID: QmAbc123 (old peer ID: QmOld)'' ''peer ID: '' =
     Some ''QmAbc123 (old peer ID: QmOld)'' \<and>
   peer_id_rule ''INFO peer ID: QmAbc123 (old peer ID: QmOld)'' [] = Inr [''QmAbc123 (old '']"
  by code_simp

text \<open>
  C7, amended: for every line containing \<open>peer ID: \<close>, the peer-ID rule appends the text
  behind the first occurrence of \<open>peer ID: \<close> up to its next occurrence, which is the
  text to the end of the line when \<open>peer ID: \<close> does not occur again.
\<close>

theorem peer_id_rule_extracts:
  assumes "text_after_first line ''peer ID: '' = Some rest"
  shows "peer_id_rule line bn = Inr (bn @ [text_up_to rest ''peer ID: '']) \<and>
         (\<not> Contains rest ''peer ID: '' \<longrightarrow> peer_id_rule line bn = Inr (bn @ [rest]))"
proof -
  from assms have "Contains line ''peer ID: ''"
    by (auto simp: text_after_first_def Contains_def split: option.splits)
  then have "Contains line (''peer ID'' @ '': '')" by simp
  then have guard: "Contains line ''peer ID''" by (rule Contains_shorter)
  have "at (Split line ''peer ID: '') 1 = Inr (text_up_to rest ''peer ID: '')"
    using assms by (intro at_Split_1) simp_all
  with guard have "peer_id_rule line bn = Inr (bn @ [text_up_to rest ''peer ID: ''])"
    by (simp add: peer_id_rule_def)
  then show ?thesis by (simp add: text_up_to_absent)
qed

text \<open>The amended C7 at the line \<open>INFO peer ID: QmAbc123\<close>: the rule extracts \<open>QmAbc123\<close>.\<close>

theorem peer_id_rule_extracts_witness:
  "text_after_first peer_line ''peer ID: '' = Some ''QmAbc123'' \<and>
   \<not> Contains ''QmAbc123'' ''peer ID: '' \<and>
   peer_id_rule peer_line [] = Inr [''QmAbc123'']"
proof -
  have a: "text_after_first peer_line ''peer ID: '' = Some ''QmAbc123''" by code_simp
  have b: "\<not> Contains ''QmAbc123'' ''peer ID: ''" by code_simp
  from peer_id_rule_extracts [OF a, of "[]"] b
  have "peer_id_rule peer_line [] = Inr ([] @ [''QmAbc123''])" by blast
  with a b show ?thesis by simp
qed

text \<open>
  C8, as stated: the listen address is the text between the marker and the next
  \<open> now\<close>. The code takes element 1 of the line split at the marker and element 0 of that
  text split at \<open> now\<close>: a line without \<open> now\<close> behind the marker still yields an
  address, the rest of the line, and a second marker ends the text before \<open> now\<close> does.
\<close>

theorem address_rule_other_cuts:
  "Contains ''Assigned to new address; listening on /ip4/127.0.0.1/tcp/4001''
     ''Assigned to new address'' \<and>
   text_between ''Assigned to new address; listening on /ip4/127.0.0.1/tcp/4001''
     ''Assigned to new address; listening on '' '' now'' = None \<and>
   address_rule ''Assigned to new address; listening on /ip4/127.0.0.1/tcp/4001'' [] =
     Inr [''/ip4/127.0.0.1/tcp/4001''] \<and>
   text_between
     ''Assigned to new address; listening on /a; Assigned to new address; listening on /b now''
     ''Assigned to new address; listening on '' '' now'' =
     Some ''/a; Assigned to new address; listening on /b'' \<and>
   address_rule
     ''Assigned to new address; listening on /a; Assigned to new address; listening on /b now''
     [] = Inr [''/a; '']"
  by code_simp

text \<open>
  C8, amended: for every line containing the marker
  \<open>Assigned to new address; listening on \<close>, read while fewer than two entries are
  known, the address rule appends the text behind the first marker, ended by the next
  marker if there is one and then by the first \<open> now\<close> if there is one. When the marker
  occurs once and \<open> now\<close> follows, this is the text between the two.
\<close>

theorem address_rule_extracts:
  assumes "text_after_first line ''Assigned to new address; listening on '' = Some rest"
    and "length bn < 2"
  shows "address_rule line bn =
           Inr (bn @ [text_up_to (text_up_to rest ''Assigned to new address; listening on '')
                        '' now'']) \<and>
         (\<not> Contains rest ''Assigned to new address; listening on '' \<longrightarrow>
          text_between line ''Assigned to new address; listening on '' '' now'' = Some a \<longrightarrow>
          address_rule line bn = Inr (bn @ [a]))"
proof -
  let ?m = "''Assigned to new address; listening on ''"
  from assms(1) have "Contains line ?m"
    by (auto simp: text_after_first_def Contains_def split: option.splits)
  then have "Contains line (''Assigned to new address'' @ ''; listening on '')" by simp
  then have guard: "Contains line ''Assigned to new address''" by (rule Contains_shorter)
  have one: "at (Split line ?m) 1 = Inr (text_up_to rest ?m)"
    using assms(1) by (intro at_Split_1) simp_all
  have two: "at (Split (text_up_to rest ?m) '' now'') 0 =
      Inr (text_up_to (text_up_to rest ?m) '' now'')"
    by (intro at_Split_0) simp
  from guard assms(2) one two
  have main: "address_rule line bn = Inr (bn @ [text_up_to (text_up_to rest ?m) '' now''])"
    by (simp add: address_rule_def)
  have "text_up_to rest '' now'' = a"
    if "text_between line ?m '' now'' = Some a"
    using that assms(1) by (auto simp: text_between_def text_up_to_def split: option.splits)
  with main show ?thesis by (simp add: text_up_to_absent)
qed

text \<open>
  The amended C8 at the line
  \<open>INFO Assigned to new address; listening on /ip4/127.0.0.1/tcp/4001 now active\<close>: the
  rule extracts \<open>/ip4/127.0.0.1/tcp/4001\<close>.
\<close>

theorem address_rule_extracts_witness:
  "text_after_first address_line ''Assigned to new address; listening on '' =
     Some ''/ip4/127.0.0.1/tcp/4001 now active'' \<and>
   length ([] :: string list) < 2 \<and>
   \<not> Contains ''/ip4/127.0.0.1/tcp/4001 now active'' ''Assigned to new address; listening on '' \<and>
   text_between address_line ''Assigned to new address; listening on '' '' now'' =
     Some ''/ip4/127.0.0.1/tcp/4001'' \<and>
   address_rule address_line [] = Inr [''/ip4/127.0.0.1/tcp/4001'']"
proof -
  have a: "text_after_first address_line ''Assigned to new address; listening on '' =
     Some ''/ip4/127.0.0.1/tcp/4001 now active''" by code_simp
  have b: "length ([] :: string list) < 2" by simp
  have c: "\<not> Contains ''/ip4/127.0.0.1/tcp/4001 now active''
     ''Assigned to new address; listening on ''" by code_simp
  have d: "text_between address_line ''Assigned to new address; listening on '' '' now'' =
     Some ''/ip4/127.0.0.1/tcp/4001''" by code_simp
  from address_rule_extracts [OF a b, of "''/ip4/127.0.0.1/tcp/4001''"] c d
  have "address_rule address_line [] = Inr ([] @ [''/ip4/127.0.0.1/tcp/4001''])" by blast
  with a b c d show ?thesis by simp
qed

end
